theory Spec2Isabelle
  imports Main
begin

section \<open>fastapi-crudrouter, core/_utils.py: data model\<close>

text \<open>
  The file \<^verbatim>\<open>src/fastapi_crudrouter/core/_utils.py\<close> holds four helpers: the
  primary-key type resolver \<^verbatim>\<open>get_pk_type\<close>, the schema factory
  \<^verbatim>\<open>schema_factory\<close>, the error builder
  \<^verbatim>\<open>create_query_validation_exception\<close> and the pagination dependency made by
  \<^verbatim>\<open>pagination_factory\<close>. Python integers are unbounded (\<open>int\<close>), Python
  \<^verbatim>\<open>None\<close> in an \<^verbatim>\<open>Optional\<close> is \<open>None\<close>, a raised exception is the left
  summand of the result.
\<close>

subsection \<open>Python values, types and exceptions\<close>

text \<open>Values as they occur in the error payload: strings, lists and dict literals
  (the items of a literal in the order they are written).\<close>

datatype py_value =
    PyNone
  | PyInt int
  | PyStr string
  | PyList "py_value list"
  | PyDict "(string \<times> py_value) list"

text \<open>Type objects, as far as the helpers tell them apart: \<^verbatim>\<open>int\<close> is the only
  one the source names.\<close>

datatype pytype =
    IntType
  | StrType
  | FloatType
  | BoolType
  | NoneType
  | OptionalType pytype
  | ListType pytype
  | ClassType string

datatype py_exception = TypeError | KeyError | NameError | OtherError string

text \<open>\<^verbatim>\<open>HTTPException(status_code, detail=...)\<close> of the web framework.\<close>

record http_exception =
  status_code :: int
  detail :: py_value

subsection \<open>Schema descriptors\<close>

text \<open>The second component of a field definition \<^verbatim>\<open>(type, default)\<close>:
  \<^verbatim>\<open>...\<close> (Ellipsis) marks the field as required.\<close>

datatype field_default = Ellipsis | Default py_value

text \<open>Field metadata of the newer representation (the values of
  \<^verbatim>\<open>model_fields\<close>); the source reads \<^verbatim>\<open>annotation\<close> only.\<close>

record field_info =
  annotation :: pytype
  default_value :: field_default

text \<open>
  Field metadata of the older representation (the values of \<^verbatim>\<open>__fields__\<close>); the
  source reads \<^verbatim>\<open>name\<close> and \<^verbatim>\<open>type_\<close> (here \<open>type'\<close>). The library keeps two
  types per field: \<^verbatim>\<open>outer_type_\<close> (here \<open>outer_type'\<close>), the type the field was
  annotated with, and \<^verbatim>\<open>type_\<close>, the type of the items when the annotation is a
  container: a field annotated \<^verbatim>\<open>List[int]\<close> has \<^verbatim>\<open>outer_type_ = List[int]\<close> and
  \<^verbatim>\<open>type_ = int\<close>.
\<close>

record model_field =
  name :: string
  type' :: pytype
  outer_type' :: pytype
  required :: bool

text \<open>
  A schema class, seen through the attributes the source probes:
  \<^item> \<open>dunder_name\<close> is \<^verbatim>\<open>__name__\<close>;
  \<^item> \<open>model_fields\<close> is \<open>None\<close> when \<^verbatim>\<open>hasattr(schema, "model_fields")\<close> is false,
    otherwise the dict from field name to field metadata;
  \<^item> \<open>dunder_fields\<close> is \<^verbatim>\<open>__fields__\<close>, \<open>None\<close> when the attribute is missing,
    otherwise the items of the dict in iteration order (the source iterates
    \<^verbatim>\<open>.values()\<close> and keys the result by \<^verbatim>\<open>f.name\<close>, so order decides when two
    values carry one name);
  \<^item> \<open>get_type_hints\<close> is the outcome of \<^verbatim>\<open>typing.get_type_hints(schema)\<close>, a
    library function that is not part of the repository: either the exception it
    raises or the dict from attribute name to type that it returns.
\<close>

record schema =
  dunder_name :: string
  model_fields :: "(string \<rightharpoonup> field_info) option"
  dunder_fields :: "(string \<times> model_field) list option"
  get_type_hints :: "py_exception + (string \<rightharpoonup> pytype)"

type_synonym field_definitions = "string \<rightharpoonup> (pytype \<times> field_default)"

text \<open>The class built by the model-construction facility, described by what it was
  built from: the model name and the keyword arguments \<^verbatim>\<open>**fields\<close>.\<close>

record created_model =
  model_name :: string
  field_definitions :: field_definitions

text \<open>The two call shapes of the source: \<^verbatim>\<open>create_model(name, **fields)\<close> and
  \<^verbatim>\<open>create_model(__model_name=name, **fields)\<close>.\<close>

datatype calling_convention = Positional_name | Keyword_model_name

section \<open>The functions\<close>

subsection \<open>Primary-key type resolver\<close>

definition get_pk_type :: "schema \<Rightarrow> string \<Rightarrow> py_exception + pytype" where
  "get_pk_type schema pk_field =
     (let model_fields' = (case model_fields schema of Some m \<Rightarrow> m | None \<Rightarrow> Map.empty) in
      if dom model_fields' \<noteq> {} \<and> pk_field \<in> dom model_fields' then
        (case model_fields' pk_field of
           Some field_info \<Rightarrow> Inr (annotation field_info)
         | None \<Rightarrow> Inl KeyError)
      else
        (case get_type_hints schema of
           Inl e \<Rightarrow> Inl e
         | Inr type_hints \<Rightarrow>
             (case type_hints pk_field of
                Some t \<Rightarrow> Inr t
              | None \<Rightarrow> Inr IntType)))"

subsection \<open>Schema factory\<close>

text \<open>
  Modelled from the spec: \<^verbatim>\<open>create_model\<close> is imported from the validation library
  and is not part of the repository. The spec (4.2, step 4) calls it a
  model-construction facility that constructs the new descriptor and may raise for a
  calling convention. \<open>lib conv\<close> is the exception the installed library raises when
  called in the convention \<open>conv\<close>, \<open>None\<close> when it accepts the call.
\<close>

definition create_model ::
  "(calling_convention \<Rightarrow> py_exception option) \<Rightarrow> calling_convention \<Rightarrow> string \<Rightarrow>
     field_definitions \<Rightarrow> py_exception + created_model" where
  "create_model lib conv model_name' fields' =
     (case lib conv of
        Some e \<Rightarrow> Inl e
      | None \<Rightarrow> Inr \<lparr>model_name = model_name', field_definitions = fields'\<rparr>)"

text \<open>
  Lines 45 to 60, the local variable \<^verbatim>\<open>fields\<close>: a dict comprehension over
  \<^verbatim>\<open>model_fields.items()\<close> when the class has \<^verbatim>\<open>model_fields\<close>, else over
  \<^verbatim>\<open>__fields__.values()\<close> when it has \<^verbatim>\<open>__fields__\<close>, else the empty dict.
  The second comprehension inserts under \<^verbatim>\<open>f.name\<close> in iteration order, a later
  insertion replacing an earlier one.
\<close>

definition schema_factory_fields :: "schema \<Rightarrow> string \<Rightarrow> field_definitions" where
  "schema_factory_fields schema_cls pk_field_name =
     (case model_fields schema_cls of
        Some mf \<Rightarrow>
          (\<lambda>field_name.
             if field_name \<noteq> pk_field_name
             then map_option (\<lambda>field_info. (annotation field_info, Ellipsis)) (mf field_name)
             else None)
      | None \<Rightarrow>
          (case dunder_fields schema_cls of
             Some fs \<Rightarrow>
               fold (\<lambda>f d. if name f \<noteq> pk_field_name
                            then d(name f \<mapsto> (type' f, Ellipsis)) else d)
                    (map snd fs) Map.empty
           | None \<Rightarrow> Map.empty))"

text \<open>Lines 62 to 72: the new name, then the construction, retried in the other
  calling convention when the first call raises \<^verbatim>\<open>TypeError\<close>; any other exception,
  and an exception of the retry, propagates.\<close>

definition schema_factory ::
  "(calling_convention \<Rightarrow> py_exception option) \<Rightarrow> schema \<Rightarrow> string \<Rightarrow> string \<Rightarrow>
     py_exception + created_model" where
  "schema_factory lib schema_cls pk_field_name suffix =
     (let fields' = schema_factory_fields schema_cls pk_field_name;
          name' = dunder_name schema_cls @ suffix
      in case create_model lib Positional_name name' fields' of
           Inl TypeError \<Rightarrow> create_model lib Keyword_model_name name' fields'
         | Inl e \<Rightarrow> Inl e
         | Inr schema \<Rightarrow> Inr schema)"

text \<open>The call with both optional arguments left out:
  \<^verbatim>\<open>pk_field_name = "id"\<close>, \<^verbatim>\<open>name = "Create"\<close>.\<close>

definition schema_factory_defaults ::
  "(calling_convention \<Rightarrow> py_exception option) \<Rightarrow> schema \<Rightarrow> py_exception + created_model" where
  "schema_factory_defaults lib schema_cls = schema_factory lib schema_cls ''id'' ''Create''"

subsection \<open>Query-validation error builder\<close>

definition create_query_validation_exception :: "string \<Rightarrow> string \<Rightarrow> http_exception" where
  "create_query_validation_exception field msg =
     \<lparr>status_code = 422,
      detail = PyDict
        [(''detail'',
          PyList
            [PyDict
               [(''loc'', PyList [PyStr ''query'', PyStr field]),
                (''msg'', PyStr msg),
                (''type'', PyStr ''type_error.integer'')]])]\<rparr>"

subsection \<open>Pagination dependency\<close>

text \<open>Python's \<^verbatim>\<open>str\<close> on an integer, as the f-string \<^verbatim>\<open>{max_limit}\<close> renders it:
  decimal digits, a leading minus sign for a negative number.\<close>

definition digit_char :: "nat \<Rightarrow> char" where
  "digit_char d = ''0123456789'' ! d"

fun str_nat :: "nat \<Rightarrow> string" where
  "str_nat n = (if n < 10 then [digit_char n] else str_nat (n div 10) @ [digit_char (n mod 10)])"

declare str_nat.simps [simp del]

definition str_int :: "int \<Rightarrow> string" where
  "str_int i = (if i < 0 then ''-'' @ str_nat (nat (- i)) else str_nat (nat i))"

text \<open>
  The inner function \<^verbatim>\<open>pagination(skip, limit)\<close>, closed over \<^verbatim>\<open>max_limit\<close>.
  \<^verbatim>\<open>max_limit and max_limit < limit\<close> tests the truth value of an optional integer:
  \<^verbatim>\<open>None\<close> and \<^verbatim>\<open>0\<close> are both false.
\<close>

definition pagination ::
  "int option \<Rightarrow> int \<Rightarrow> int option \<Rightarrow> http_exception + (string \<rightharpoonup> int option)" where
  "pagination max_limit skip limit =
     (let result = Inr [''skip'' \<mapsto> Some skip, ''limit'' \<mapsto> limit] in
      if skip < 0 then
        Inl (create_query_validation_exception ''skip''
               ''skip query parameter must be greater or equal to zero'')
      else
        (case limit of
           None \<Rightarrow> result
         | Some l \<Rightarrow>
             if l \<le> 0 then
               Inl (create_query_validation_exception ''limit''
                      ''limit query parameter must be greater then zero'')
             else
               (case max_limit of
                  None \<Rightarrow> result
                | Some m \<Rightarrow>
                    if m \<noteq> 0 \<and> m < l then
                      Inl (create_query_validation_exception ''limit''
                             (''limit query parameter must be less then '' @ str_int m))
                    else result)))"

text \<open>
  \<^verbatim>\<open>pagination_factory(max_limit)\<close> returns the dependency; the framework calls it
  with each query parameter either given or left out, and a parameter left out takes
  its default: \<^verbatim>\<open>skip = 0\<close>, \<^verbatim>\<open>limit = max_limit\<close>.
\<close>

definition pagination_factory ::
  "int option \<Rightarrow> int option \<Rightarrow> int option option \<Rightarrow>
     http_exception + (string \<rightharpoonup> int option)" where
  "pagination_factory max_limit skip_arg limit_arg =
     pagination max_limit
       (case skip_arg of None \<Rightarrow> 0 | Some s \<Rightarrow> s)
       (case limit_arg of None \<Rightarrow> max_limit | Some l \<Rightarrow> l)"

section \<open>Vocabulary of the properties\<close>




subsection \<open>Example descriptors\<close>

text \<open>
  \<^verbatim>\<open>class User(BaseModel): id: UUID; name: str = "anonymous"; age: Optional[int] = None\<close>
  in the newer representation, and
  \<^verbatim>\<open>class Potato(BaseModel): id: int; color: str; mass: float = 1.0\<close> and
  \<^verbatim>\<open>class Basket(BaseModel): id: int; items: List[int]\<close> in the older one, and
  \<^verbatim>\<open>class Node(BaseModel): id: int; next: "Nod"\<close>, whose forward reference names
  nothing, so that \<^verbatim>\<open>get_type_hints\<close> raises \<^verbatim>\<open>NameError\<close>.
\<close>

definition user_model_fields :: "string \<rightharpoonup> field_info" where
  "user_model_fields =
     [''id'' \<mapsto> \<lparr>annotation = ClassType ''UUID'', default_value = Ellipsis\<rparr>,
      ''name'' \<mapsto> \<lparr>annotation = StrType, default_value = Default (PyStr ''anonymous'')\<rparr>,
      ''age'' \<mapsto> \<lparr>annotation = OptionalType IntType, default_value = Default PyNone\<rparr>]"

definition user_schema :: schema where
  "user_schema =
     \<lparr>dunder_name = ''User'',
      model_fields = Some user_model_fields,
      dunder_fields = None,
      get_type_hints = Inr
        [''id'' \<mapsto> ClassType ''UUID'', ''name'' \<mapsto> StrType,
         ''age'' \<mapsto> OptionalType IntType]\<rparr>"

definition potato_schema :: schema where
  "potato_schema =
     \<lparr>dunder_name = ''Potato'',
      model_fields = None,
      dunder_fields = Some
        [(''id'', \<lparr>name = ''id'', type' = IntType, outer_type' = IntType, required = True\<rparr>),
         (''color'',
          \<lparr>name = ''color'', type' = StrType, outer_type' = StrType, required = True\<rparr>),
         (''mass'',
          \<lparr>name = ''mass'', type' = FloatType, outer_type' = FloatType, required = False\<rparr>)],
      get_type_hints = Inr
        [''id'' \<mapsto> IntType, ''color'' \<mapsto> StrType, ''mass'' \<mapsto> FloatType]\<rparr>"




text \<open>A library that accepts the first call, and one that raises \<^verbatim>\<open>TypeError\<close> for
  it and accepts the retry.\<close>

definition accepts_positional :: "calling_convention \<Rightarrow> py_exception option" where
  "accepts_positional conv = None"

definition accepts_keyword_only :: "calling_convention \<Rightarrow> py_exception option" where
  "accepts_keyword_only conv =
     (case conv of Positional_name \<Rightarrow> Some TypeError | Keyword_model_name \<Rightarrow> None)"


definition user_update :: created_model where
  "user_update =
     \<lparr>model_name = ''UserUpdate'',
      field_definitions =
        [''name'' \<mapsto> (StrType, Ellipsis), ''age'' \<mapsto> (OptionalType IntType, Ellipsis)]\<rparr>"

definition potato_create :: created_model where
  "potato_create =
     \<lparr>model_name = ''PotatoCreate'',
      field_definitions =
        [''color'' \<mapsto> (StrType, Ellipsis), ''mass'' \<mapsto> (FloatType, Ellipsis)]\<rparr>"


section \<open>Properties\<close>

subsection \<open>Helper lemmas on the schema factory\<close>

text \<open>What a successful call returns, and when a call is successful.\<close>

lemma schema_factory_Inr:
  "schema_factory lib schema_cls pk suffix = Inr created \<Longrightarrow>
   created = \<lparr>model_name = dunder_name schema_cls @ suffix,
              field_definitions = schema_factory_fields schema_cls pk\<rparr>"
  by (auto simp: schema_factory_def create_model_def Let_def
           split: option.splits sum.splits py_exception.splits)

lemma schema_factory_returns:
  "(\<exists>created. schema_factory lib schema_cls pk suffix = Inr created) \<longleftrightarrow>
   (lib Positional_name = None \<or>
    (lib Positional_name = Some TypeError \<and> lib Keyword_model_name = None))"
  by (auto simp: schema_factory_def create_model_def Let_def
           split: option.splits sum.splits py_exception.splits)





text \<open>The factory on the example descriptors.\<close>

lemma user_fields_eval:
  "schema_factory_fields user_schema ''id'' =
     [''name'' \<mapsto> (StrType, Ellipsis), ''age'' \<mapsto> (OptionalType IntType, Ellipsis)]"
  by (rule ext) (simp add: schema_factory_fields_def user_schema_def user_model_fields_def)

lemma potato_fields_eval:
  "schema_factory_fields potato_schema ''id'' =
     [''color'' \<mapsto> (StrType, Ellipsis), ''mass'' \<mapsto> (FloatType, Ellipsis)]"
  by (simp add: schema_factory_fields_def potato_schema_def)


lemma user_update_eval:
  "schema_factory accepts_positional user_schema ''id'' ''Update'' = Inr user_update"
  by (simp add: schema_factory_def create_model_def accepts_positional_def user_fields_eval
        user_update_def) (simp add: user_schema_def)

lemma potato_create_eval:
  "schema_factory accepts_keyword_only potato_schema ''id'' ''Create'' = Inr potato_create"
  by (simp add: schema_factory_def create_model_def accepts_keyword_only_def potato_fields_eval
        potato_create_def) (simp add: potato_schema_def)



subsection \<open>Schema factory\<close>




text \<open>
  C9. The schema produced by \<^verbatim>\<open>schema_factory\<close> is named by the original
  descriptor's name followed by the suffix; with the suffix left out, by the name
  followed by \<^verbatim>\<open>Create\<close>.
\<close>

theorem schema_factory_name:
  "(schema_factory lib schema_cls pk_field_name suffix = Inr created \<longrightarrow>
      model_name created = dunder_name schema_cls @ suffix) \<and>
   (schema_factory_defaults lib schema_cls = Inr created' \<longrightarrow>
      model_name created' = dunder_name schema_cls @ ''Create'')"
  by (auto simp: schema_factory_defaults_def dest!: schema_factory_Inr)

theorem schema_factory_name_witness:
  "schema_factory accepts_positional user_schema ''id'' ''Update'' = Inr user_update \<and>
   schema_factory_defaults accepts_keyword_only potato_schema = Inr potato_create \<and>
   model_name user_update = dunder_name user_schema @ ''Update'' \<and>
   model_name potato_create = dunder_name potato_schema @ ''Create''"
proof -
  have d: "schema_factory_defaults accepts_keyword_only potato_schema = Inr potato_create"
    by (simp add: schema_factory_defaults_def potato_create_eval)
  from schema_factory_name [where lib = accepts_positional and schema_cls = user_schema
      and pk_field_name = "''id''" and suffix = "''Update''" and created = user_update]
  have 1: "model_name user_update = dunder_name user_schema @ ''Update''"
    using user_update_eval by blast
  from schema_factory_name [where lib = accepts_keyword_only and schema_cls = potato_schema
      and created' = potato_create]
  have 2: "model_name potato_create = dunder_name potato_schema @ ''Create''"
    using d by blast
  from 1 2 d user_update_eval show ?thesis by blast
qed

subsection \<open>Primary-key type resolver\<close>

text \<open>
  C2. When the descriptor exposes \<^verbatim>\<open>model_fields\<close> and the named primary-key field
  is in it, \<^verbatim>\<open>get_pk_type\<close> returns exactly the annotation of that field.
\<close>

theorem get_pk_type_model_fields:
  "model_fields schema = Some mf \<Longrightarrow> mf pk_field = Some field_info \<Longrightarrow>
   get_pk_type schema pk_field = Inr (annotation field_info)"
  by (auto simp: get_pk_type_def)

theorem get_pk_type_model_fields_witness:
  "model_fields user_schema = Some user_model_fields \<and>
   user_model_fields ''id'' =
     Some \<lparr>annotation = ClassType ''UUID'', default_value = Ellipsis\<rparr> \<and>
   get_pk_type user_schema ''id'' = Inr (ClassType ''UUID'')"
proof -
  have 1: "model_fields user_schema = Some user_model_fields"
    by (simp add: user_schema_def)
  have 2: "user_model_fields ''id'' =
             Some \<lparr>annotation = ClassType ''UUID'', default_value = Ellipsis\<rparr>"
    by (simp add: user_model_fields_def)
  from get_pk_type_model_fields [OF 1 2] 1 2 show ?thesis by simp
qed




subsection \<open>Query-validation error builder\<close>

text \<open>
  C5. For every parameter name and message, the error carries status 422 and the
  payload \<^verbatim>\<open>{"detail": [{"loc": ["query", field], "msg": msg, "type":
  "type_error.integer"}]}\<close>: a one-element list under \<^verbatim>\<open>detail\<close>, whose element
  has the location, the given message and the fixed kind tag, whatever the message.
\<close>

theorem create_query_validation_exception_payload:
  "status_code (create_query_validation_exception field msg) = 422 \<and>
   detail (create_query_validation_exception field msg) =
     PyDict [(''detail'',
       PyList [PyDict [(''loc'', PyList [PyStr ''query'', PyStr field]),
                       (''msg'', PyStr msg),
                       (''type'', PyStr ''type_error.integer'')]])]"
  by (simp add: create_query_validation_exception_def)

subsection \<open>Pagination\<close>

text \<open>
  C6. For every configured maximum and every limit, a negative \<^verbatim>\<open>skip\<close> fails with
  the error naming \<^verbatim>\<open>skip\<close> and the message "skip query parameter must be greater or
  equal to zero"; no limit check comes first.
\<close>

theorem pagination_negative_skip:
  "skip < 0 \<Longrightarrow>
   pagination max_limit skip limit =
     Inl (create_query_validation_exception ''skip''
            ''skip query parameter must be greater or equal to zero'')"
  by (simp add: pagination_def)

theorem pagination_negative_skip_witness:
  "(-1::int) < 0 \<and>
   pagination (Some 10) (-1) (Some 0) =
     Inl (create_query_validation_exception ''skip''
            ''skip query parameter must be greater or equal to zero'')"
  using pagination_negative_skip [of "-1" "Some 10" "Some 0"] by simp

text \<open>
  C7. For every configured maximum and every \<^verbatim>\<open>skip >= 0\<close>, a limit that is given
  and is at most zero fails with the error naming \<^verbatim>\<open>limit\<close> and the message "limit
  query parameter must be greater then zero".
\<close>

theorem pagination_limit_not_positive:
  "0 \<le> skip \<Longrightarrow> l \<le> 0 \<Longrightarrow>
   pagination max_limit skip (Some l) =
     Inl (create_query_validation_exception ''limit''
            ''limit query parameter must be greater then zero'')"
  by (simp add: pagination_def)

theorem pagination_limit_not_positive_witness:
  "(0::int) \<le> 0 \<and> (0::int) \<le> 0 \<and>
   pagination (Some 10) 0 (Some 0) =
     Inl (create_query_validation_exception ''limit''
            ''limit query parameter must be greater then zero'')"
  using pagination_limit_not_positive [of 0 0 "Some 10"] by simp

text \<open>
  C4, as amended. For every configured maximum other than zero, every
  \<^verbatim>\<open>skip >= 0\<close> and every given limit that is positive and greater than the maximum,
  the validator fails with the error naming \<^verbatim>\<open>limit\<close> whose message is "limit query
  parameter must be less then " followed by the maximum in decimal.
\<close>

theorem pagination_over_maximum:
  "0 \<le> skip \<Longrightarrow> 0 < l \<Longrightarrow> m \<noteq> 0 \<Longrightarrow> m < l \<Longrightarrow>
   pagination (Some m) skip (Some l) =
     Inl (create_query_validation_exception ''limit''
            (''limit query parameter must be less then '' @ str_int m))"
  by (simp add: pagination_def)

theorem pagination_over_maximum_witness:
  "(0::int) \<le> 0 \<and> (0::int) < 50 \<and> (10::int) \<noteq> 0 \<and> (10::int) < 50 \<and>
   pagination (Some 10) 0 (Some 50) =
     Inl (create_query_validation_exception ''limit''
            ''limit query parameter must be less then 10'')"
  using pagination_over_maximum [of 0 50 10]
  by (simp add: str_int_def str_nat.simps digit_char_def)

text \<open>
  C4 as stated fails for a configured maximum of zero: with \<^verbatim>\<open>max_limit = 0\<close>,
  \<^verbatim>\<open>skip = 0\<close> and \<^verbatim>\<open>limit = 5\<close> the limit is given, positive and greater than the
  maximum, and the validator succeeds.
\<close>

theorem pagination_over_maximum_counterexample:
  "(0::int) \<le> 0 \<and> (0::int) < 5 \<and> (0::int) < 5 \<and>
   pagination (Some 0) 0 (Some 5) = Inr [''skip'' \<mapsto> Some 0, ''limit'' \<mapsto> Some 5] \<and>
   \<not> isl (pagination (Some 0) 0 (Some 5))"
  by (simp add: pagination_def)

text \<open>
  C8. For every \<^verbatim>\<open>skip >= 0\<close> and every limit that is absent, or positive and (with
  a maximum configured) at most the maximum, the validator succeeds and returns
  \<^verbatim>\<open>{"skip": skip, "limit": limit}\<close> with both values unchanged.
\<close>

theorem pagination_success:
  "0 \<le> skip \<Longrightarrow>
   (case limit of
      None \<Rightarrow> True
    | Some l \<Rightarrow> 0 < l \<and> (case max_limit of None \<Rightarrow> True | Some m \<Rightarrow> l \<le> m)) \<Longrightarrow>
   pagination max_limit skip limit = Inr [''skip'' \<mapsto> Some skip, ''limit'' \<mapsto> limit]"
  by (auto simp: pagination_def split: option.splits)

theorem pagination_success_witness:
  "pagination (Some 10) 5 (Some 10) = Inr [''skip'' \<mapsto> Some 5, ''limit'' \<mapsto> Some 10] \<and>
   pagination None 0 None = Inr [''skip'' \<mapsto> Some 0, ''limit'' \<mapsto> None]"
  using pagination_success [of 5 "Some 10" "Some 10"] pagination_success [of 0 None None]
  by simp

text \<open>
  C10. With a configured maximum of exactly zero the over-maximum check never
  applies: for every \<^verbatim>\<open>skip >= 0\<close> and every given limit greater than zero the
  validator succeeds and returns \<^verbatim>\<open>{"skip": skip, "limit": limit}\<close>.
\<close>

theorem pagination_max_limit_zero:
  "0 \<le> skip \<Longrightarrow> 0 < l \<Longrightarrow>
   pagination (Some 0) skip (Some l) = Inr [''skip'' \<mapsto> Some skip, ''limit'' \<mapsto> Some l]"
  by (simp add: pagination_def)

theorem pagination_max_limit_zero_witness:
  "(0::int) \<le> 3 \<and> (0::int) < 1000 \<and>
   pagination (Some 0) 3 (Some 1000) = Inr [''skip'' \<mapsto> Some 3, ''limit'' \<mapsto> Some 1000]"
  using pagination_max_limit_zero [of 3 1000] by simp

end
